theory Spec2Isabelle
  imports Complex_Main "HOL-Library.Sublist" "HOL-Library.AList"
begin

section \<open>Python values, exceptions and outcomes\<close>

text \<open>
  The migration client works on parsed JSON: dictionaries, lists, strings, numbers, booleans
  and \<open>None\<close>. A dictionary is an association list, so that the order of its keys is kept;
  \<open>AList.update\<close> overwrites a key in place and appends a new one, as a Python dict does.
  Strings are lists of 8-bit characters; floats, tuples, sets and bytes are not modelled.
\<close>

datatype py =
    PNone
  | PBool bool
  | PInt int
  | PStr string
  | PList "py list"
  | PDict "(string \<times> py) list"

datatype exn =
    KeyError string
  | TypeError
  | AttributeError
  | IndexError
  | ValueError string
  | Exception string
  | UnboundLocalError string
  | FileNotFoundError string
  | IsADirectoryError string
  | NotADirectoryError string
  | FileExistsError string
  | RemoteError string

text \<open>
  A call either returns a value, raises, or never returns (an unbounded polling loop). The
  world it leaves behind is kept in the first two cases: files written before an exception
  stay written.
\<close>

datatype ('a, 'w) outcome = Return 'a 'w | Raise exn 'w | Diverge

definition bnd ::
  "('w \<Rightarrow> ('a, 'w) outcome) \<Rightarrow> ('a \<Rightarrow> 'w \<Rightarrow> ('b, 'w) outcome) \<Rightarrow> 'w \<Rightarrow> ('b, 'w) outcome" where
  "bnd m f w = (case m w of Return a w' \<Rightarrow> f a w' | Raise e w' \<Rightarrow> Raise e w' | Diverge \<Rightarrow> Diverge)"

lemma bnd_cong [fundef_cong]:
  "m w = m' w' \<Longrightarrow> (\<And>a u. m' w' = Return a u \<Longrightarrow> f a u = f' a u) \<Longrightarrow> bnd m f w = bnd m' f' w'"
  by (auto simp: bnd_def split: outcome.splits)

fun lift :: "exn + 'a \<Rightarrow> 'w \<Rightarrow> ('a, 'w) outcome" where
  "lift (Inl e) w = Raise e w"
| "lift (Inr a) w = Return a w"

fun run :: "('a, 'w) outcome option \<Rightarrow> ('a, 'w) outcome" where
  "run None = Diverge"
| "run (Some r) = r"

text \<open>Truthiness, as \<open>if x:\<close> and \<open>not x\<close> test it.\<close>

fun truthy :: "py \<Rightarrow> bool" where
  "truthy PNone = False"
| "truthy (PBool b) = b"
| "truthy (PInt i) = (i \<noteq> 0)"
| "truthy (PStr s) = (s \<noteq> [])"
| "truthy (PList xs) = (xs \<noteq> [])"
| "truthy (PDict kvs) = (kvs \<noteq> [])"

text \<open>\<open>d[k]\<close> raises KeyError on a missing key; \<open>d.get(k, None)\<close> does not.\<close>

fun subscript :: "py \<Rightarrow> string \<Rightarrow> exn + py" where
  "subscript (PDict kvs) k = (case map_of kvs k of None \<Rightarrow> Inl (KeyError k) | Some v \<Rightarrow> Inr v)"
| "subscript _ k = Inl TypeError"

fun py_get :: "py \<Rightarrow> string \<Rightarrow> exn + py" where
  "py_get (PDict kvs) k = (case map_of kvs k of None \<Rightarrow> Inr PNone | Some v \<Rightarrow> Inr v)"
| "py_get _ k = Inl AttributeError"

text \<open>\<open>d[k] = v\<close> on a dictionary.\<close>

fun set_item :: "py \<Rightarrow> string \<Rightarrow> py \<Rightarrow> exn + py" where
  "set_item (PDict kvs) k v = Inr (PDict (AList.update k v kvs))"
| "set_item _ k v = Inl TypeError"

text \<open>String concatenation \<open>a + b\<close> needs a string on the right.\<close>

fun as_str :: "py \<Rightarrow> exn + string" where
  "as_str (PStr s) = Inr s"
| "as_str _ = Inl TypeError"

text \<open>What a \<open>for\<close> loop iterates over.\<close>

fun py_iter :: "py \<Rightarrow> exn + py list" where
  "py_iter (PList xs) = Inr xs"
| "py_iter (PStr s) = Inr (map (\<lambda>ch. PStr [ch]) s)"
| "py_iter (PDict kvs) = Inr (map (\<lambda>kv. PStr (fst kv)) kvs)"
| "py_iter _ = Inl TypeError"

text \<open>Integers in arithmetic; \<open>bool\<close> is a subclass of \<open>int\<close>.\<close>

fun as_int :: "py \<Rightarrow> exn + int" where
  "as_int (PInt i) = Inr i"
| "as_int (PBool b) = Inr (if b then 1 else 0)"
| "as_int _ = Inl TypeError"

text \<open>Decimal rendering of an integer, as \<open>str\<close> and \<open>format\<close> give it.\<close>

fun str_nat :: "nat \<Rightarrow> string" where
  "str_nat n = (if n < 10 then [char_of (48 + n)] else str_nat (n div 10) @ [char_of (48 + n mod 10)])"

definition str_int :: "int \<Rightarrow> string" where
  "str_int i = (if i < 0 then CHR ''-'' # str_nat (nat (- i)) else str_nat (nat i))"

abbreviation newline :: char where
  "newline \<equiv> CHR 0x0A"

text \<open>
  Iterating over a text file yields its lines, each with its newline; a last line without one
  is yielded as it is. (The translation of carriage returns is not modelled.)
\<close>

fun file_lines :: "string \<Rightarrow> string list" where
  "file_lines [] = []"
| "file_lines (ch # cs) =
     (if ch = newline then [ch] # file_lines cs
      else (case file_lines cs of [] \<Rightarrow> [[ch]] | l # ls \<Rightarrow> (ch # l) # ls))"

text \<open>\<open>s.split(sep)\<close> for a one-character separator: always at least one part.\<close>

fun split_on :: "char \<Rightarrow> string \<Rightarrow> string list" where
  "split_on sep [] = [[]]"
| "split_on sep (ch # cs) =
     (if ch = sep then [] # split_on sep cs
      else (case split_on sep cs of [] \<Rightarrow> [[ch]] | p # ps \<Rightarrow> (ch # p) # ps))"

text \<open>\<open>xs[i]\<close> for a literal index \<open>i \<ge> 0\<close>.\<close>

definition index :: "'a list \<Rightarrow> nat \<Rightarrow> exn + 'a" where
  "index xs i = (if i < length xs then Inr (xs ! i) else Inl IndexError)"

section \<open>The world: remote service, local files, process log\<close>

datatype node = File string | Dir "string list"

datatype log_msg = Info string | Error string

text \<open>
  \<open>remote\<close> is the state of the workspace behind the REST clients, \<open>fs\<close> the local file
  system by path, \<open>logs\<close> what was written to the process log. Two fields only record what
  happened and are never read by the program: \<open>commands\<close> lists every remote command that
  ran to completion (cluster, context, statement, result), \<open>reads\<close> every file opened for
  reading.
\<close>

record 'r world =
  remote :: 'r
  fs :: "string \<rightharpoonup> node"
  logs :: "log_msg list"
  commands :: "(py \<times> py \<times> string \<times> py) list"
  reads :: "string list"

text \<open>
  The client object. Its configuration (\<open>_export_dir\<close>, \<open>is_aws()\<close>, \<open>is_skip_failed()\<close>,
  \<open>get_latest_spark_version()\<close>) is held by the base class, and the REST clients, the cluster
  service and the standard library (\<open>json\<close>, \<open>ast\<close>, \<open>str\<close> of a container) are outside the
  repository: all of them are parameters here. A REST call may raise (\<open>Inl\<close>) and changes the
  remote state only.
\<close>

record 'r client =
  export_dir :: string
  is_aws :: bool
  is_skip_failed :: bool
  real_path :: string
  api_client :: "string \<Rightarrow> string \<Rightarrow> py \<Rightarrow> 'r \<Rightarrow> (exn + py) \<times> 'r"
  api_client_v1_2 :: "string \<Rightarrow> string \<Rightarrow> py \<Rightarrow> 'r \<Rightarrow> (exn + py) \<times> 'r"
  list_clusters :: "'r \<Rightarrow> (exn + py) \<times> 'r"
  get_cluster :: "py \<Rightarrow> 'r \<Rightarrow> (exn + py) \<times> 'r"
  create_cluster :: "py \<Rightarrow> 'r \<Rightarrow> (exn + py) \<times> 'r"
  edit_cluster_call :: "py \<Rightarrow> 'r \<Rightarrow> (exn + py) \<times> 'r"
  get_latest_spark_version :: "'r \<Rightarrow> (exn + py) \<times> 'r"
  elapsed :: "'r \<Rightarrow> string"
  json_dumps :: "py \<Rightarrow> string"
  json_loads :: "string \<Rightarrow> exn + py"
  literal_eval :: "string \<Rightarrow> exn + py"
  py_repr :: "py \<Rightarrow> string"

definition remote_call :: "('r \<Rightarrow> (exn + py) \<times> 'r) \<Rightarrow> 'r world \<Rightarrow> (py, 'r world) outcome" where
  "remote_call q w =
     (case q (remote w) of
        (Inl e, r') \<Rightarrow> Raise e (w\<lparr>remote := r'\<rparr>)
      | (Inr v, r') \<Rightarrow> Return v (w\<lparr>remote := r'\<rparr>))"

definition log_info :: "string \<Rightarrow> 'r world \<Rightarrow> (unit, 'r world) outcome" where
  "log_info msg w = Return () (w\<lparr>logs := logs w @ [Info msg]\<rparr>)"

definition log_error :: "string \<Rightarrow> 'r world \<Rightarrow> (unit, 'r world) outcome" where
  "log_error msg w = Return () (w\<lparr>logs := logs w @ [Error msg]\<rparr>)"

text \<open>\<open>str(x)\<close>, as \<open>format\<close> and f-strings apply it.\<close>

definition py_str :: "'r client \<Rightarrow> py \<Rightarrow> string" where
  "py_str c v =
     (case v of
        PStr s \<Rightarrow> s
      | PNone \<Rightarrow> ''None''
      | PBool b \<Rightarrow> (if b then ''True'' else ''False'')
      | PInt i \<Rightarrow> str_int i
      | _ \<Rightarrow> py_repr c v)"

subsection \<open>Files\<close>

definition open_read :: "string \<Rightarrow> 'r world \<Rightarrow> (string, 'r world) outcome" where
  "open_read p w =
     (case fs w p of
        None \<Rightarrow> Raise (FileNotFoundError p) w
      | Some (Dir es) \<Rightarrow> Raise (IsADirectoryError p) w
      | Some (File s) \<Rightarrow> Return s (w\<lparr>reads := reads w @ [p]\<rparr>))"

definition open_write :: "string \<Rightarrow> 'r world \<Rightarrow> (unit, 'r world) outcome" where
  "open_write p w =
     (case fs w p of
        Some (Dir es) \<Rightarrow> Raise (IsADirectoryError p) w
      | _ \<Rightarrow> Return () (w\<lparr>fs := (fs w)(p \<mapsto> File [])\<rparr>))"

definition open_append :: "string \<Rightarrow> 'r world \<Rightarrow> (unit, 'r world) outcome" where
  "open_append p w =
     (case fs w p of
        Some (Dir es) \<Rightarrow> Raise (IsADirectoryError p) w
      | Some (File s) \<Rightarrow> Return () w
      | None \<Rightarrow> Return () (w\<lparr>fs := (fs w)(p \<mapsto> File [])\<rparr>))"

definition file_write :: "string \<Rightarrow> string \<Rightarrow> 'r world \<Rightarrow> (unit, 'r world) outcome" where
  "file_write p s w =
     Return () (w\<lparr>fs := (fs w)(p \<mapsto> File ((case fs w p of Some (File t) \<Rightarrow> t | _ \<Rightarrow> []) @ s))\<rparr>)"

definition path_exists :: "string \<Rightarrow> 'r world \<Rightarrow> bool" where
  "path_exists p w = (fs w p \<noteq> None)"

definition isdir :: "string \<Rightarrow> 'r world \<Rightarrow> bool" where
  "isdir p w = (case fs w p of Some (Dir es) \<Rightarrow> True | _ \<Rightarrow> False)"

definition os_remove :: "string \<Rightarrow> 'r world \<Rightarrow> (unit, 'r world) outcome" where
  "os_remove p w =
     (case fs w p of
        None \<Rightarrow> Raise (FileNotFoundError p) w
      | Some (Dir es) \<Rightarrow> Raise (IsADirectoryError p) w
      | Some (File s) \<Rightarrow> Return () (w\<lparr>fs := (fs w)(p := None)\<rparr>))"

definition makedirs :: "string \<Rightarrow> 'r world \<Rightarrow> (unit, 'r world) outcome" where
  "makedirs p w =
     (case fs w p of
        None \<Rightarrow> Return () (w\<lparr>fs := (fs w)(p \<mapsto> Dir [])\<rparr>)
      | Some (Dir es) \<Rightarrow> Return () w
      | Some (File s) \<Rightarrow> Raise (FileExistsError p) w)"

definition listdir :: "string \<Rightarrow> 'r world \<Rightarrow> (string list, 'r world) outcome" where
  "listdir p w =
     (case fs w p of
        None \<Rightarrow> Raise (FileNotFoundError p) w
      | Some (File s) \<Rightarrow> Raise (NotADirectoryError p) w
      | Some (Dir es) \<Rightarrow> Return es w)"

section \<open>clusters.py\<close>

subsection \<open>get_execution_context\<close>

definition get_execution_context :: "'r client \<Rightarrow> py \<Rightarrow> 'r world \<Rightarrow> (py, 'r world) outcome" where
  "get_execution_context c cid =
     bnd (log_info ''Creating remote Spark Session'') (\<lambda>_.
     bnd (remote_call (api_client_v1_2 c ''POST'' ''/contexts/create''
            (PDict [(''language'', PStr ''python''), (''clusterId'', cid)]))) (\<lambda>ec.
     bnd (lift (py_get ec ''id'')) (\<lambda>ec_id.
       if \<not> truthy ec_id then
         bnd (log_info ''Unable to establish remote session'') (\<lambda>_.
         bnd (log_info (py_str c ec)) (\<lambda>_.
         Raise (Exception ''Remote session error'')))
       else Return ec_id)))"

subsection \<open>submit_command\<close>

text \<open>
  The polling loop has no bound: it asks for the status again as long as the last answer
  says \<open>Running\<close> or \<open>Queued\<close>. \<open>None\<close> is the loop that never ends.
\<close>

partial_function (option) poll_status ::
  "'r client \<Rightarrow> py \<Rightarrow> py \<Rightarrow> py \<Rightarrow> 'r world \<Rightarrow> (py, 'r world) outcome option" where
  "poll_status c result_payload resp is_running w =
     (if is_running = PStr ''Running'' \<or> is_running = PStr ''Queued'' then
        (case remote_call (api_client_v1_2 c ''GET'' ''/commands/status'' result_payload) w of
           Return resp' w' \<Rightarrow>
             (case subscript resp' ''status'' of
                Inl e \<Rightarrow> Some (Raise e w')
              | Inr is_running' \<Rightarrow> poll_status c result_payload resp' is_running' w')
         | Raise e w' \<Rightarrow> Some (Raise e w')
         | Diverge \<Rightarrow> Some Diverge)
      else Some (Return resp w))"

definition record_command :: "py \<Rightarrow> py \<Rightarrow> string \<Rightarrow> py \<Rightarrow> 'r world \<Rightarrow> (py, 'r world) outcome" where
  "record_command cid ec_id cmd end_results w =
     Return end_results (w\<lparr>commands := commands w @ [(cid, ec_id, cmd, end_results)]\<rparr>)"

definition submit_command ::
  "'r client \<Rightarrow> py \<Rightarrow> py \<Rightarrow> string \<Rightarrow> 'r world \<Rightarrow> (py, 'r world) outcome" where
  "submit_command c cid ec_id cmd =
     bnd (remote_call (api_client_v1_2 c ''POST'' ''/commands/execute''
            (PDict [(''language'', PStr ''python''), (''contextId'', ec_id),
                    (''clusterId'', cid), (''command'', PStr cmd)]))) (\<lambda>command.
     bnd (lift (py_get command ''id'')) (\<lambda>com_id.
     bnd (if \<not> truthy com_id then log_error (''ERROR: '' @ py_str c command) else Return ()) (\<lambda>_.
     let result_payload =
           PDict [(''clusterId'', cid), (''contextId'', ec_id), (''commandId'', com_id)] in
     bnd (remote_call (api_client_v1_2 c ''GET'' ''/commands/status'' result_payload)) (\<lambda>resp.
     bnd (lift (subscript resp ''status'')) (\<lambda>is_running.
     bnd (\<lambda>w. run (poll_status c result_payload resp is_running w)) (\<lambda>resp.
     bnd (lift (subscript resp ''results'')) (\<lambda>end_results.
     bnd (lift (py_get end_results ''resultType'')) (\<lambda>result_type.
     bnd (if result_type = PStr ''error'' then
            bnd (lift (py_get end_results ''summary'')) (\<lambda>summary.
            log_error (''ERROR: '' @ py_str c summary))
          else Return ()) (\<lambda>_.
     record_command cid ec_id cmd end_results)))))))))"

subsection \<open>remove_automated_clusters\<close>

text \<open>
  The part of Python's regular expressions that the job-cluster pattern uses: a literal
  character, the class \<open>\d\<close>, one-or-more of either, and \<open>$\<close>. Without the MULTILINE flag
  \<open>$\<close> holds at the end of the string and also just before a newline that ends the string.
  \<open>re_match\<close> is \<open>pattern.match(s)\<close>: the pattern has to match from the first character on
  and may stop anywhere. Among 8-bit characters \<open>\d\<close> is \<open>0\<close> to \<open>9\<close>.
\<close>

datatype atom = Lit char | Digit

datatype rx = One atom | Plus atom | Dollar

fun atom_ok :: "atom \<Rightarrow> char \<Rightarrow> bool" where
  "atom_ok (Lit c) x = (x = c)"
| "atom_ok Digit x = (x \<in> set ''0123456789'')"

fun re_match :: "rx list \<Rightarrow> string \<Rightarrow> bool" where
  "re_match [] s = True"
| "re_match (One a # rs) [] = False"
| "re_match (One a # rs) (x # xs) = (atom_ok a x \<and> re_match rs xs)"
| "re_match (Plus a # rs) [] = False"
| "re_match (Plus a # rs) (x # xs) = (atom_ok a x \<and> (re_match (Plus a # rs) xs \<or> re_match rs xs))"
| "re_match (Dollar # rs) s = ((s = [] \<or> s = [newline]) \<and> re_match rs s)"

text \<open>\<open>re.compile("job-\d+-run-\d+$")\<close>\<close>

definition re_expr :: "rx list" where
  "re_expr = map (\<lambda>ch. One (Lit ch)) ''job-'' @ [Plus Digit]
           @ map (\<lambda>ch. One (Lit ch)) ''-run-'' @ [Plus Digit, Dollar]"

definition ml_model_pattern :: string where
  "ml_model_pattern = ''mlflow-model-''"

text \<open>The test of the loop on a cluster name that is a string.\<close>

definition automated :: "string \<Rightarrow> bool" where
  "automated cluster_name = (re_match re_expr cluster_name \<or> prefix ml_model_pattern cluster_name)"

fun remove_automated_loop ::
  "'r client \<Rightarrow> string \<Rightarrow> py list \<Rightarrow> py list \<Rightarrow> 'r world \<Rightarrow> (py list, 'r world) outcome" where
  "remove_automated_loop c log_fp [] clean_cluster_list w = Return clean_cluster_list w"
| "remove_automated_loop c log_fp (cluster # rest) clean_cluster_list w =
     bnd (lift (subscript cluster ''cluster_name'')) (\<lambda>cluster_name.
     bnd (lift (as_str cluster_name)) (\<lambda>name.
       if automated name then
         bnd (file_write log_fp (json_dumps c cluster @ [newline])) (\<lambda>_ u.
         remove_automated_loop c log_fp rest clean_cluster_list u)
       else (\<lambda>u. remove_automated_loop c log_fp rest (clean_cluster_list @ [cluster]) u))) w"

definition remove_automated_clusters ::
  "'r client \<Rightarrow> py list \<Rightarrow> string \<Rightarrow> 'r world \<Rightarrow> (py list, 'r world) outcome" where
  "remove_automated_clusters c cluster_list log_file =
     bnd (open_write (export_dir c @ log_file)) (\<lambda>_.
     remove_automated_loop c (export_dir c @ log_file) cluster_list [])"

subsection \<open>wait_for_cluster, get_cluster_id_by_name, launch_cluster, edit_cluster\<close>

partial_function (option) wait_loop ::
  "'r client \<Rightarrow> py \<Rightarrow> py \<Rightarrow> 'r world \<Rightarrow> (py, 'r world) outcome option" where
  "wait_loop c cid c_state w =
     (case subscript c_state ''state'' of
        Inl e \<Rightarrow> Some (Raise e w)
      | Inr st \<Rightarrow>
          if st \<noteq> PStr ''RUNNING'' then
            (case remote_call (get_cluster c cid) w of
               Return c_state' w' \<Rightarrow>
                 (case subscript c_state' ''state'' of
                    Inl e \<Rightarrow> Some (Raise e w')
                  | Inr st' \<Rightarrow>
                      wait_loop c cid c_state'
                        (w'\<lparr>logs := logs w' @ [Info (''Cluster state: '' @ py_str c st')]\<rparr>))
             | Raise e w' \<Rightarrow> Some (Raise e w')
             | Diverge \<Rightarrow> Some Diverge)
          else Some (Return cid w))"

definition wait_for_cluster :: "'r client \<Rightarrow> py \<Rightarrow> 'r world \<Rightarrow> (py, 'r world) outcome" where
  "wait_for_cluster c cid =
     bnd (remote_call (get_cluster c cid)) (\<lambda>c_state w. run (wait_loop c cid c_state w))"

text \<open>\<open>list(filter(lambda x: x['state'] == "RUNNING", ...))\<close>\<close>

fun running_clusters :: "py list \<Rightarrow> exn + py list" where
  "running_clusters [] = Inr []"
| "running_clusters (x # xs) =
     (case subscript x ''state'' of
        Inl e \<Rightarrow> Inl e
      | Inr st \<Rightarrow>
          (case running_clusters xs of
             Inl e \<Rightarrow> Inl e
           | Inr r \<Rightarrow> Inr (if st = PStr ''RUNNING'' then x # r else r)))"

fun cluster_named :: "py \<Rightarrow> py list \<Rightarrow> exn + py" where
  "cluster_named cname [] = Inr PNone"
| "cluster_named cname (x # xs) =
     (case subscript x ''cluster_name'' of
        Inl e \<Rightarrow> Inl e
      | Inr n \<Rightarrow> if cname = n then subscript x ''cluster_id'' else cluster_named cname xs)"

definition get_cluster_id_by_name :: "'r client \<Rightarrow> py \<Rightarrow> 'r world \<Rightarrow> (py, 'r world) outcome" where
  "get_cluster_id_by_name c cname =
     bnd (remote_call (list_clusters c)) (\<lambda>cl.
     bnd (lift (subscript cl ''clusters'')) (\<lambda>clusters.
     bnd (lift (py_iter clusters)) (\<lambda>xs.
     bnd (lift (running_clusters xs)) (\<lambda>running.
     lift (cluster_named cname running)))))"

text \<open>\<open>json.loads(fp.read())\<close> of a cluster template shipped with the package.\<close>

definition load_json :: "'r client \<Rightarrow> string \<Rightarrow> 'r world \<Rightarrow> (py, 'r world) outcome" where
  "load_json c p = bnd (open_read p) (\<lambda>text. lift (json_loads c text))"

text \<open>The three statements that attach an instance profile to the template.\<close>

definition with_instance_profile ::
  "string \<Rightarrow> py \<Rightarrow> py \<Rightarrow> 'r world \<Rightarrow> (py, 'r world) outcome" where
  "with_instance_profile msg cluster_json iam_role =
     bnd (lift (subscript cluster_json ''aws_attributes'')) (\<lambda>aws_attr.
     bnd (lift (as_str iam_role)) (\<lambda>role.
     bnd (log_info (msg @ role)) (\<lambda>_.
     bnd (lift (set_item aws_attr ''instance_profile_arn'' iam_role)) (\<lambda>aws_attr.
     lift (set_item cluster_json ''aws_attributes'' aws_attr)))))"

definition launch_cluster :: "'r client \<Rightarrow> py \<Rightarrow> 'r world \<Rightarrow> (py, 'r world) outcome" where
  "launch_cluster c iam_role =
     bnd (if is_aws c then
            bnd (load_json c (real_path c @ ''/../data/aws_cluster.json'')) (\<lambda>cluster_json.
              if truthy iam_role
              then with_instance_profile ''Creating cluster with: '' cluster_json iam_role
              else Return cluster_json)
          else load_json c (real_path c @ ''/../data/azure_cluster.json'')) (\<lambda>cluster_json.
     bnd (lift (subscript cluster_json ''cluster_name'')) (\<lambda>cluster_name.
     bnd (get_cluster_id_by_name c cluster_name) (\<lambda>existing_cid.
       if truthy existing_cid then Return existing_cid
       else
         bnd (remote_call (create_cluster c cluster_json)) (\<lambda>c_info.
         bnd (lift (subscript c_info ''http_status_code'')) (\<lambda>code.
           if code \<noteq> PInt 200 then
             Raise (Exception
               ''Could not launch cluster. Verify that the --azure flag or cluster config is correct.'')
           else
             bnd (lift (subscript c_info ''cluster_id'')) (\<lambda>new_cid.
             bnd (wait_for_cluster c new_cid) (\<lambda>_.
             lift (subscript c_info ''cluster_id''))))))))"

definition edit_cluster :: "'r client \<Rightarrow> py \<Rightarrow> py \<Rightarrow> 'r world \<Rightarrow> (py, 'r world) outcome" where
  "edit_cluster c cid iam_role =
     bnd (remote_call (get_latest_spark_version c)) (\<lambda>version.
       if is_aws c then
         bnd (load_json c (real_path c @ ''/../data/aws_cluster.json'')) (\<lambda>cluster_json.
         bnd (with_instance_profile ''Updating cluster with: '' cluster_json iam_role) (\<lambda>cluster_json.
         bnd (remote_call (edit_cluster_call c cluster_json)) (\<lambda>resp.
         bnd (wait_for_cluster c cid) (\<lambda>_.
         Return cid))))
       else Return (PBool False))"

section \<open>hive.py\<close>

text \<open>\<open>range(0, n)\<close>\<close>

definition py_range :: "int \<Rightarrow> int list" where
  "py_range n = map int [0..<nat n]"

text \<open>\<open>ast.literal_eval(x)\<close>: the argument has to be a string.\<close>

definition eval_literal :: "'r client \<Rightarrow> py \<Rightarrow> exn + py" where
  "eval_literal c data =
     (case data of PStr s \<Rightarrow> literal_eval c s | _ \<Rightarrow> Inl (ValueError ''malformed node or string''))"

definition batch_size :: int where
  "batch_size = 100"

text \<open>\<open>(n // batch_size) + 1\<close>, the number of slices of the list to take.\<close>

definition num_of_buckets :: "int \<Rightarrow> int" where
  "num_of_buckets n = (n div batch_size) + 1"

text \<open>The bounds \<open>batch_size*m\<close> and \<open>batch_size*(m+1)\<close> that the slice statement is built from.\<close>

definition slice_bounds :: "int \<Rightarrow> int \<times> int" where
  "slice_bounds m = (batch_size * m, batch_size * (m + 1))"

definition slice_cmd :: "string \<Rightarrow> int \<Rightarrow> string" where
  "slice_cmd var m =
     ''print('' @ var @ ''['' @ str_int (fst (slice_bounds m)) @ '':''
       @ str_int (snd (slice_bounds m)) @ ''])''"

definition all_dbs_cmd :: string where
  \<open>all_dbs_cmd =
     ''all_dbs = [x.databaseName for x in spark.sql("show databases").collect()]; print(len(all_dbs))''\<close>

definition all_tables_cmd :: "string \<Rightarrow> string" where
  \<open>all_tables_cmd db =
     ''all_tables = [x.tableName for x in spark.sql("show tables in '' @ db @ ''").collect()]''\<close>

definition ddl_stmt :: "string \<Rightarrow> string \<Rightarrow> string" where
  \<open>ddl_stmt db tbl =
     ''print(spark.sql("show create table '' @ db @ ''.'' @ tbl @ ''").collect()[0][0])''\<close>

subsection \<open>log_all_databases\<close>

fun log_databases ::
  "'r client \<Rightarrow> string \<Rightarrow> py list \<Rightarrow> py list \<Rightarrow> 'r world \<Rightarrow> (py list, 'r world) outcome" where
  "log_databases c ms_dir [] all_dbs w = Return all_dbs w"
| "log_databases c ms_dir (db # db_names) all_dbs w =
     bnd (log_info (''Database: '' @ py_str c db)) (\<lambda>_.
     bnd (lift (as_str db)) (\<lambda>name.
     bnd (makedirs (export_dir c @ ms_dir @ name)) (\<lambda>_ u.
     log_databases c ms_dir db_names (all_dbs @ [db]) u))) w"

fun database_buckets ::
  "'r client \<Rightarrow> py \<Rightarrow> py \<Rightarrow> string \<Rightarrow> int list \<Rightarrow> py list \<Rightarrow> 'r world
     \<Rightarrow> (py list, 'r world) outcome" where
  "database_buckets c cid ec_id ms_dir [] all_dbs w = Return all_dbs w"
| "database_buckets c cid ec_id ms_dir (m # ms) all_dbs w =
     bnd (submit_command c cid ec_id (slice_cmd ''all_dbs'' m)) (\<lambda>results.
     bnd (lift (subscript results ''data'')) (\<lambda>data.
     bnd (lift (eval_literal c data)) (\<lambda>db_names.
     bnd (lift (py_iter db_names)) (\<lambda>names.
     bnd (log_databases c ms_dir names all_dbs) (\<lambda>all_dbs' u.
     database_buckets c cid ec_id ms_dir ms all_dbs' u))))) w"

definition log_all_databases ::
  "'r client \<Rightarrow> py \<Rightarrow> py \<Rightarrow> string \<Rightarrow> 'r world \<Rightarrow> (py list, 'r world) outcome" where
  "log_all_databases c cid ec_id ms_dir =
     bnd (submit_command c cid ec_id all_dbs_cmd) (\<lambda>results.
     bnd (lift (subscript results ''resultType'')) (\<lambda>result_type.
       if result_type \<noteq> PStr ''text'' then
         bnd (log_info (json_dumps c results @ [newline])) (\<lambda>_.
         Raise (ValueError ''Cannot identify number of databases due to the above error''))
       else
         bnd (lift (subscript results ''data'')) (\<lambda>data.
         bnd (lift (eval_literal c data)) (\<lambda>num_of_dbs.
         bnd (lift (as_int num_of_dbs)) (\<lambda>n.
         database_buckets c cid ec_id ms_dir (py_range (num_of_buckets n)) [])))))"

subsection \<open>log_all_tables\<close>

text \<open>The body of the loop over the table names of one slice.\<close>

definition log_table ::
  "'r client \<Rightarrow> py \<Rightarrow> py \<Rightarrow> py \<Rightarrow> string \<Rightarrow> string \<Rightarrow> py \<Rightarrow> 'r world \<Rightarrow> (unit, 'r world) outcome" where
  "log_table c db_name cid ec_id ms_dir err_log table_name =
     bnd (log_info (''Table: '' @ py_str c table_name)) (\<lambda>_.
     bnd (submit_command c cid ec_id (ddl_stmt (py_str c db_name) (py_str c table_name))) (\<lambda>results.
     bnd (lift (as_str db_name)) (\<lambda>db.
     bnd (lift (as_str table_name)) (\<lambda>tbl.
     bnd (open_write (export_dir c @ ms_dir @ db @ ''/'' @ tbl)) (\<lambda>_.
     bnd (lift (subscript results ''resultType'')) (\<lambda>result_type.
       if result_type = PStr ''text'' then
         bnd (lift (subscript results ''data'')) (\<lambda>data.
         bnd (lift (as_str data)) (\<lambda>text.
         file_write (export_dir c @ ms_dir @ db @ ''/'' @ tbl) text))
       else
         bnd (lift (set_item results ''table''
                (PStr (py_str c db_name @ ''.'' @ py_str c table_name)))) (\<lambda>results.
         file_write err_log (json_dumps c results @ [newline]))))))))"

fun log_tables ::
  "'r client \<Rightarrow> py \<Rightarrow> py \<Rightarrow> py \<Rightarrow> string \<Rightarrow> string \<Rightarrow> py list \<Rightarrow> 'r world \<Rightarrow> (unit, 'r world) outcome" where
  "log_tables c db_name cid ec_id ms_dir err_log [] w = Return () w"
| "log_tables c db_name cid ec_id ms_dir err_log (table_name # table_names) w =
     bnd (log_table c db_name cid ec_id ms_dir err_log table_name) (\<lambda>_ u.
     log_tables c db_name cid ec_id ms_dir err_log table_names u) w"

fun table_buckets ::
  "'r client \<Rightarrow> py \<Rightarrow> py \<Rightarrow> py \<Rightarrow> string \<Rightarrow> string \<Rightarrow> int list \<Rightarrow> 'r world \<Rightarrow> (unit, 'r world) outcome" where
  "table_buckets c db_name cid ec_id ms_dir err_log [] w = Return () w"
| "table_buckets c db_name cid ec_id ms_dir err_log (m # ms) w =
     bnd (submit_command c cid ec_id (slice_cmd ''all_tables'' m)) (\<lambda>results.
     bnd (lift (subscript results ''data'')) (\<lambda>data.
     bnd (lift (eval_literal c data)) (\<lambda>table_names.
     bnd (lift (py_iter table_names)) (\<lambda>names.
     bnd (log_tables c db_name cid ec_id ms_dir err_log names) (\<lambda>_ u.
     table_buckets c db_name cid ec_id ms_dir err_log ms u))))) w"

definition log_all_tables ::
  "'r client \<Rightarrow> py \<Rightarrow> py \<Rightarrow> py \<Rightarrow> string \<Rightarrow> string \<Rightarrow> 'r world \<Rightarrow> (bool, 'r world) outcome" where
  "log_all_tables c db_name cid ec_id ms_dir err_log_path =
     bnd (submit_command c cid ec_id (all_tables_cmd (py_str c db_name))) (\<lambda>results.
     bnd (submit_command c cid ec_id ''print(len(all_tables))'') (\<lambda>results.
     bnd (lift (subscript results ''data'')) (\<lambda>data.
     bnd (lift (eval_literal c data)) (\<lambda>num_of_tables.
     bnd (lift (as_int num_of_tables)) (\<lambda>n.
     bnd (open_append err_log_path) (\<lambda>_.
     bnd (table_buckets c db_name cid ec_id ms_dir err_log_path (py_range (num_of_buckets n))) (\<lambda>_.
     Return True)))))))"

subsection \<open>check_if_instance_profiles_exists, get_num_of_lines\<close>

fun write_json_lines ::
  "'r client \<Rightarrow> string \<Rightarrow> py list \<Rightarrow> 'r world \<Rightarrow> (unit, 'r world) outcome" where
  "write_json_lines c fp [] w = Return () w"
| "write_json_lines c fp (x # xs) w =
     bnd (file_write fp (json_dumps c x @ [newline])) (\<lambda>_ u. write_json_lines c fp xs u) w"

definition check_if_instance_profiles_exists ::
  "'r client \<Rightarrow> string \<Rightarrow> 'r world \<Rightarrow> (bool, 'r world) outcome" where
  "check_if_instance_profiles_exists c log_file =
     bnd (remote_call (api_client c ''GET'' ''/instance-profiles/list'' PNone)) (\<lambda>resp.
     bnd (lift (py_get resp ''instance_profiles'')) (\<lambda>ips.
       if truthy ips then
         bnd (open_write (export_dir c @ log_file)) (\<lambda>_.
         bnd (lift (py_iter ips)) (\<lambda>xs.
         bnd (write_json_lines c (export_dir c @ log_file) xs) (\<lambda>_.
         Return True)))
       else Return False))"

definition get_num_of_lines :: "string \<Rightarrow> 'r world \<Rightarrow> (int, 'r world) outcome" where
  "get_num_of_lines fname w =
     (if \<not> path_exists fname w then Return 0 w
      else bnd (open_read fname) (\<lambda>text. Return (int (length (file_lines text)))) w)"

subsection \<open>retry_failed_metastore_export\<close>

text \<open>\<open>table_json['table'].split(".")\<close>\<close>

definition split_table :: "py \<Rightarrow> exn + string list" where
  "split_table table_json =
     (case subscript table_json ''table'' of
        Inl e \<Rightarrow> Inl e
      | Inr (PStr s) \<Rightarrow> Inr (split_on CHR ''.'' s)
      | Inr _ \<Rightarrow> Inl AttributeError)"

text \<open>
  \<open>for table in err_log_list\<close>, with \<open>err_log_list.remove(table)\<close> in its body. A Python list
  iterator keeps an index into the list: each round takes the element at the index, if there
  is one, and moves the index on by one; \<open>remove\<close> deletes the first element equal to its
  argument from the very list that is iterated.
\<close>

function retry_tables ::
  "'r client \<Rightarrow> py \<Rightarrow> py \<Rightarrow> string \<Rightarrow> py \<Rightarrow> nat \<Rightarrow> string list \<Rightarrow> 'r world
     \<Rightarrow> (string list, 'r world) outcome" where
  "retry_tables c cid ec_id ms_dir iam_role i err_log_list w =
     (if i < length err_log_list then
        bnd (lift (json_loads c (err_log_list ! i))) (\<lambda>table_json.
        bnd (lift (split_table table_json)) (\<lambda>parts.
        bnd (lift (index parts 0)) (\<lambda>db_name.
        bnd (lift (split_table table_json)) (\<lambda>parts.
        bnd (lift (index parts 1)) (\<lambda>table_name.
        bnd (submit_command c cid ec_id (ddl_stmt db_name table_name)) (\<lambda>results.
        bnd (lift (subscript results ''resultType'')) (\<lambda>result_type.
          if result_type = PStr ''text'' then
            bnd (open_write (export_dir c @ ms_dir @ db_name @ ''/'' @ table_name)) (\<lambda>_.
            bnd (lift (subscript results ''data'')) (\<lambda>data.
            bnd (lift (as_str data)) (\<lambda>text.
            bnd (file_write (export_dir c @ ms_dir @ db_name @ ''/'' @ table_name) text) (\<lambda>_ u.
            retry_tables c cid ec_id ms_dir iam_role (i + 1)
              (remove1 (err_log_list ! i) err_log_list) u))))
          else
            bnd (log_info (''failed to get ddl for '' @ db_name @ ''.'' @ table_name
                   @ '' with iam role '' @ py_str c iam_role)) (\<lambda>_ u.
            retry_tables c cid ec_id ms_dir iam_role (i + 1) err_log_list u)))))))) w
      else Return err_log_list w)"
  by pat_completeness auto
termination
  by (relation "measure (\<lambda>(c, cid, ec_id, ms_dir, iam_role, i, err_log_list, w). length err_log_list - i)")
     (auto simp: length_remove1)

declare retry_tables.simps [simp del]

fun retry_roles ::
  "'r client \<Rightarrow> py \<Rightarrow> string \<Rightarrow> string list \<Rightarrow> string list \<Rightarrow> 'r world
     \<Rightarrow> (string list, 'r world) outcome" where
  "retry_roles c cid ms_dir [] err_log_list w = Return err_log_list w"
| "retry_roles c cid ms_dir (role # roles) err_log_list w =
     bnd (lift (json_loads c role)) (\<lambda>role_json.
     bnd (lift (subscript role_json ''instance_profile_arn'')) (\<lambda>iam_role.
     bnd (edit_cluster c cid iam_role) (\<lambda>_.
     bnd (get_execution_context c cid) (\<lambda>ec_id.
     bnd (retry_tables c cid ec_id ms_dir iam_role 0 err_log_list) (\<lambda>err_log_list' u.
     retry_roles c cid ms_dir roles err_log_list' u))))) w"

fun write_all :: "string \<Rightarrow> string list \<Rightarrow> 'r world \<Rightarrow> (unit, 'r world) outcome" where
  "write_all fm [] w = Return () w"
| "write_all fm (table # tables) w = bnd (file_write fm table) (\<lambda>_ u. write_all fm tables u) w"

definition retry_marker :: string where
  "retry_marker = ''Instance profiles exist, retrying export of failed tables with each instance profile''"

text \<open>The branch taken when instance profiles exist: the retry pass.\<close>

definition retry_pass ::
  "'r client \<Rightarrow> py \<Rightarrow> string \<Rightarrow> string \<Rightarrow> 'r world \<Rightarrow> (unit, 'r world) outcome" where
  "retry_pass c cid failed_metastore_log_path ms_dir =
     bnd (log_info retry_marker) (\<lambda>_.
     bnd (open_read failed_metastore_log_path) (\<lambda>err_log.
     bnd (open_read (export_dir c @ ''instance_profiles.log'')) (\<lambda>iam_log.
     bnd (retry_roles c cid ms_dir (file_lines iam_log) (file_lines err_log)) (\<lambda>err_log_list.
     bnd (os_remove failed_metastore_log_path) (\<lambda>_.
     bnd (open_write failed_metastore_log_path) (\<lambda>_.
     bnd (write_all failed_metastore_log_path err_log_list) (\<lambda>_.
     bnd (get_num_of_lines failed_metastore_log_path) (\<lambda>failed_count_after_retry.
     log_info (''Failed count after retry: '' @ str_int failed_count_after_retry)))))))))"

definition retry_failed_metastore_export ::
  "'r client \<Rightarrow> py \<Rightarrow> string \<Rightarrow> string \<Rightarrow> 'r world \<Rightarrow> (unit, 'r world) outcome" where
  "retry_failed_metastore_export c cid failed_metastore_log_path ms_dir =
     bnd (if is_aws c
          then bnd (check_if_instance_profiles_exists c ''instance_profiles.log'') (\<lambda>b. Return (Some b))
          else Return None) (\<lambda>do_instance_profile_exist.
     bnd (get_num_of_lines failed_metastore_log_path) (\<lambda>total_failed_entries.
       case do_instance_profile_exist of
         None \<Rightarrow> Raise (UnboundLocalError ''do_instance_profile_exist'')
       | Some exist \<Rightarrow>
           if exist then retry_pass c cid failed_metastore_log_path ms_dir
           else log_info ''No registered instance profiles to retry export''))"

subsection \<open>export_hive_metastore\<close>



subsection \<open>import_hive_metastore\<close>

definition create_db_statement :: "string \<Rightarrow> string" where
  \<open>create_db_statement db_name =
     ''spark.sql("CREATE DATABASE IF NOT EXISTS '' @ filter (\<lambda>ch. ch \<noteq> newline) db_name @ ''")''\<close>

definition create_database_db ::
  "'r client \<Rightarrow> string \<Rightarrow> py \<Rightarrow> py \<Rightarrow> 'r world \<Rightarrow> (py, 'r world) outcome" where
  "create_database_db c db_name ec_id cid = submit_command c cid ec_id (create_db_statement db_name)"

definition get_spark_ddl :: "string \<Rightarrow> string" where
  \<open>get_spark_ddl table_ddl = ''spark.sql(""" '' @ table_ddl @ '' """)''\<close>

definition apply_table_ddl ::
  "'r client \<Rightarrow> string \<Rightarrow> py \<Rightarrow> py \<Rightarrow> 'r world \<Rightarrow> (py, 'r world) outcome" where
  "apply_table_ddl c local_table_dir ec_id cid =
     bnd (open_read local_table_dir) (\<lambda>ddl_statement.
     submit_command c cid ec_id (get_spark_ddl ddl_statement))"

fun import_tables ::
  "'r client \<Rightarrow> string \<Rightarrow> string \<Rightarrow> py \<Rightarrow> py \<Rightarrow> string list \<Rightarrow> 'r world \<Rightarrow> (unit, 'r world) outcome" where
  "import_tables c ms_local_dir db ec_id cid [] w = Return () w"
| "import_tables c ms_local_dir db ec_id cid (x # tables) w =
     bnd (log_info (''Importing table '' @ db @ ''.'' @ x)) (\<lambda>_.
     bnd (apply_table_ddl c (ms_local_dir @ ''/'' @ db @ ''/'' @ x) ec_id cid) (\<lambda>is_successful.
     bnd (log_info (py_str c is_successful)) (\<lambda>_ u.
     import_tables c ms_local_dir db ec_id cid tables u))) w"

fun import_databases ::
  "'r client \<Rightarrow> string \<Rightarrow> py \<Rightarrow> py \<Rightarrow> string list \<Rightarrow> 'r world \<Rightarrow> (unit, 'r world) outcome" where
  "import_databases c ms_local_dir ec_id cid [] w = Return () w"
| "import_databases c ms_local_dir ec_id cid (db # db_list) w =
     bnd (create_database_db c db ec_id cid) (\<lambda>_.
     bnd (\<lambda>w. if isdir (ms_local_dir @ ''/'' @ db) w then
                bnd (listdir (ms_local_dir @ ''/'' @ db)) (\<lambda>tables.
                import_tables c ms_local_dir db ec_id cid tables) w
              else log_error (''Error: Only databases should exist at this level: '' @ db) w) (\<lambda>_ u.
     import_databases c ms_local_dir ec_id cid db_list u)) w"

definition import_hive_metastore :: "'r client \<Rightarrow> string \<Rightarrow> 'r world \<Rightarrow> (unit, 'r world) outcome" where
  "import_hive_metastore c ms_dir =
     bnd (launch_cluster c PNone) (\<lambda>cid.
     bnd (get_execution_context c cid) (\<lambda>ec_id.
     bnd (listdir (export_dir c @ ms_dir)) (\<lambda>db_list.
     import_databases c (export_dir c @ ms_dir) ec_id cid db_list)))"

section \<open>Notions used to state properties\<close>

text \<open>A non-empty string of decimal digits.\<close>

definition digits :: "string \<Rightarrow> bool" where
  "digits s = (s \<noteq> [] \<and> set s \<subseteq> set ''0123456789'')"

text \<open>Whether the loop of remove_automated_clusters skips a cluster whose name is a string.\<close>

definition skipped_cluster :: "py \<Rightarrow> bool" where
  "skipped_cluster cluster =
     (case subscript cluster ''cluster_name'' of Inr (PStr n) \<Rightarrow> automated n | _ \<Rightarrow> False)"

definition named_cluster :: "py \<Rightarrow> bool" where
  "named_cluster cluster =
     (case subscript cluster ''cluster_name'' of Inr (PStr n) \<Rightarrow> True | _ \<Rightarrow> False)"

text \<open>
  The index ranges that log_all_databases and log_all_tables ask for when the remote list
  has \<open>n\<close> elements: one pair of slice bounds for each \<open>m\<close> of \<open>range(0, num_of_buckets)\<close>.
\<close>

definition pagination :: "int \<Rightarrow> (int \<times> int) list" where
  "pagination n = map slice_bounds (py_range (num_of_buckets n))"

text \<open>The indices that a list of half-open ranges covers.\<close>

definition covered :: "(int \<times> int) list \<Rightarrow> int set" where
  "covered rs = (\<Union>r\<in>set rs. {fst r..<snd r})"


text \<open>\<open>results['resultType'] == 'text'\<close>\<close>

definition text_result :: "py \<Rightarrow> bool" where
  "text_result results = (subscript results ''resultType'' = Inr (PStr ''text''))"

text \<open>The statements among completed commands that came back with a text result.\<close>

definition extracted :: "(py \<times> py \<times> string \<times> py) list \<Rightarrow> string set" where
  "extracted evs = {cmd. \<exists>cid ec_id results. (cid, ec_id, cmd, results) \<in> set evs \<and> text_result results}"








section \<open>A scripted workspace for concrete runs\<close>

text \<open>
  For runs on concrete inputs the remote side is a script: it notes every request it
  receives (method or service, path or operation, payload) and answers with the next
  prepared response, whatever the request. The standard-library functions are given per run.
\<close>

record script =
  received :: "(string \<times> string \<times> py) list"
  pending :: "(exn + py) list"

definition answer :: "string \<Rightarrow> string \<Rightarrow> py \<Rightarrow> script \<Rightarrow> (exn + py) \<times> script" where
  "answer method path data r =
     (case pending r of
        [] \<Rightarrow> (Inl (RemoteError ''no answer''), r\<lparr>received := received r @ [(method, path, data)]\<rparr>)
      | a # as \<Rightarrow> (a, \<lparr>received = received r @ [(method, path, data)], pending = as\<rparr>))"

definition scripted ::
  "string \<Rightarrow> bool \<Rightarrow> bool \<Rightarrow> (py \<Rightarrow> string) \<Rightarrow> (string \<Rightarrow> exn + py) \<Rightarrow> (string \<Rightarrow> exn + py)
     \<Rightarrow> script client" where
  "scripted dir aws skip dumps loads leval =
     \<lparr>export_dir = dir, is_aws = aws, is_skip_failed = skip, real_path = ''/pkg/migrations'',
      api_client = answer, api_client_v1_2 = answer,
      list_clusters = answer ''clusters_service'' ''list_clusters'' PNone,
      get_cluster = answer ''clusters_service'' ''get_cluster'',
      create_cluster = answer ''clusters_service'' ''create_cluster'',
      edit_cluster_call = answer ''clusters_service'' ''edit_cluster'',
      get_latest_spark_version = answer ''self'' ''get_latest_spark_version'' PNone,
      elapsed = (\<lambda>r. ''0:00:01''),
      json_dumps = dumps, json_loads = loads, literal_eval = leval, py_repr = dumps\<rparr>"

definition start :: "(exn + py) list \<Rightarrow> (string \<rightharpoonup> node) \<Rightarrow> script world" where
  "start answers files =
     \<lparr>remote = \<lparr>received = [], pending = answers\<rparr>, fs = files, logs = [], commands = [],
      reads = []\<rparr>"

text \<open>
  The runs below use a fixed table of JSON texts with their values for \<open>json.dumps\<close> and
  \<open>json.loads\<close> (which skips the newline that ends a line), and a table of Python literals
  for \<open>ast.literal_eval\<close>.
\<close>

definition json_texts :: "(string \<times> py) list" where
  \<open>json_texts =
     [(''{"cluster_name": "Workspace_Migration_Work_Leave_Me_Alone", "aws_attributes": {"availability": "SPOT"}}'',
       PDict [(''cluster_name'', PStr ''Workspace_Migration_Work_Leave_Me_Alone''),
              (''aws_attributes'', PDict [(''availability'', PStr ''SPOT'')])]),
      (''{"instance_profile_arn": "arn:aws:iam::111:role/etl"}'',
       PDict [(''instance_profile_arn'', PStr ''arn:aws:iam::111:role/etl'')]),
      (''{"resultType": "error", "summary": "AccessDenied", "table": "sales.orders"}'',
       PDict [(''resultType'', PStr ''error''), (''summary'', PStr ''AccessDenied''),
              (''table'', PStr ''sales.orders'')]),
      (''{"resultType": "error", "summary": "AccessDenied", "table": "sales.customers"}'',
       PDict [(''resultType'', PStr ''error''), (''summary'', PStr ''AccessDenied''),
              (''table'', PStr ''sales.customers'')])]\<close>

definition demo_loads :: "string \<Rightarrow> exn + py" where
  "demo_loads s =
     (case map_of json_texts (filter (\<lambda>ch. ch \<noteq> newline) s) of
        Some v \<Rightarrow> Inr v
      | None \<Rightarrow> Inl (ValueError ''JSONDecodeError''))"

definition demo_dumps :: "py \<Rightarrow> string" where
  "demo_dumps v =
     (case map_of (map (\<lambda>(t, v). (v, t)) json_texts) v of Some t \<Rightarrow> t | None \<Rightarrow> ''null'')"

definition demo_literal_eval :: "string \<Rightarrow> exn + py" where
  "demo_literal_eval s =
     (case map_of [(''0'', PInt 0), (''1'', PInt 1), (''[]'', PList []),
                   (''['default']'', PList [PStr ''default'']),
                   (''['sales']'', PList [PStr ''sales'']),
                   (''['orders']'', PList [PStr ''orders'']),
                   (''['orders', 'customers']'', PList [PStr ''orders'', PStr ''customers''])] s of
        Some v \<Rightarrow> Inr v
      | None \<Rightarrow> Inl (ValueError ''malformed node or string''))"

definition demo :: "bool \<Rightarrow> bool \<Rightarrow> script client" where
  "demo aws skip = scripted ''export/'' aws skip demo_dumps demo_loads demo_literal_eval"

text \<open>The two answers to a command that runs at once: its identifier, then its final status.\<close>

definition finished :: "string \<Rightarrow> string \<Rightarrow> (exn + py) list" where
  "finished result_type data =
     [Inr (PDict [(''id'', PStr ''cmd'')]),
      Inr (PDict [(''status'', PStr ''Finished''),
                  (''results'', PDict [(''resultType'', PStr result_type), (''data'', PStr data)])])]"

text \<open>The two answers to a command that ends with an error.\<close>

definition failed :: "string \<Rightarrow> (exn + py) list" where
  "failed summary =
     [Inr (PDict [(''id'', PStr ''cmd'')]),
      Inr (PDict [(''status'', PStr ''Finished''),
                  (''results'', PDict [(''resultType'', PStr ''error''), (''summary'', PStr summary)])])]"

text \<open>The answers to one round of the retry: the cluster is edited, runs, and gives a context.\<close>

definition role_switch :: "(exn + py) list" where
  "role_switch =
     [Inr (PStr ''7.3.x-scala2.12''),
      Inr (PDict []),
      Inr (PDict [(''state'', PStr ''RUNNING'')]),
      Inr (PDict [(''id'', PStr ''ctx2'')])]"

definition cluster_template :: "string \<rightharpoonup> node" where
  "cluster_template = [''/pkg/migrations/../data/aws_cluster.json'' \<mapsto> File (fst (json_texts ! 0))]"

definition orders_line :: string where
  "orders_line = fst (json_texts ! 2) @ [newline]"

definition customers_line :: string where
  "customers_line = fst (json_texts ! 3) @ [newline]"

definition one_profile :: "exn + py" where
  "one_profile = Inr (PDict [(''instance_profiles'', PList [snd (json_texts ! 1)])])"


section \<open>Properties\<close>

lemma scripted_sel [simp]:
  "export_dir (scripted dir aws skip dumps loads leval) = dir"
  "is_aws (scripted dir aws skip dumps loads leval) = aws"
  "is_skip_failed (scripted dir aws skip dumps loads leval) = skip"
  "real_path (scripted dir aws skip dumps loads leval) = ''/pkg/migrations''"
  "api_client (scripted dir aws skip dumps loads leval) = answer"
  "api_client_v1_2 (scripted dir aws skip dumps loads leval) = answer"
  "list_clusters (scripted dir aws skip dumps loads leval) = answer ''clusters_service'' ''list_clusters'' PNone"
  "get_cluster (scripted dir aws skip dumps loads leval) = answer ''clusters_service'' ''get_cluster''"
  "create_cluster (scripted dir aws skip dumps loads leval) = answer ''clusters_service'' ''create_cluster''"
  "edit_cluster_call (scripted dir aws skip dumps loads leval) = answer ''clusters_service'' ''edit_cluster''"
  "get_latest_spark_version (scripted dir aws skip dumps loads leval) = answer ''self'' ''get_latest_spark_version'' PNone"
  "elapsed (scripted dir aws skip dumps loads leval) = (\<lambda>r. ''0:00:01'')"
  "json_dumps (scripted dir aws skip dumps loads leval) = dumps"
  "json_loads (scripted dir aws skip dumps loads leval) = loads"
  "literal_eval (scripted dir aws skip dumps loads leval) = leval"
  "py_repr (scripted dir aws skip dumps loads leval) = dumps"
  by (simp_all add: scripted_def)

lemma demo_sel [simp]:
  "export_dir (demo aws skip) = ''export/''"
  "is_aws (demo aws skip) = aws"
  "is_skip_failed (demo aws skip) = skip"
  "real_path (demo aws skip) = ''/pkg/migrations''"
  "api_client (demo aws skip) = answer"
  "api_client_v1_2 (demo aws skip) = answer"
  "list_clusters (demo aws skip) = answer ''clusters_service'' ''list_clusters'' PNone"
  "get_cluster (demo aws skip) = answer ''clusters_service'' ''get_cluster''"
  "create_cluster (demo aws skip) = answer ''clusters_service'' ''create_cluster''"
  "edit_cluster_call (demo aws skip) = answer ''clusters_service'' ''edit_cluster''"
  "get_latest_spark_version (demo aws skip) = answer ''self'' ''get_latest_spark_version'' PNone"
  "elapsed (demo aws skip) = (\<lambda>r. ''0:00:01'')"
  "json_dumps (demo aws skip) = demo_dumps"
  "json_loads (demo aws skip) = demo_loads"
  "literal_eval (demo aws skip) = demo_literal_eval"
  "py_repr (demo aws skip) = demo_dumps"
  by (simp_all add: demo_def)

lemmas file_defs =
  path_exists_def isdir_def open_read_def open_write_def open_append_def file_write_def
  os_remove_def makedirs_def listdir_def

lemmas cluster_defs =
  get_execution_context_def submit_command_def poll_status.simps wait_for_cluster_def
  wait_loop.simps get_cluster_id_by_name_def load_json_def with_instance_profile_def
  launch_cluster_def edit_cluster_def

lemmas demo_defs =
  json_texts_def demo_loads_def demo_dumps_def demo_literal_eval_def finished_def role_switch_def
  cluster_template_def orders_line_def customers_line_def one_profile_def

lemmas run_defs =
  bnd_def remote_call_def answer_def start_def log_info_def log_error_def py_str_def
  record_command_def Let_def




subsection \<open>submit_command without a command identifier\<close>

text \<open>
  C4. The claim: submit_command raises a SubmissionError whenever the execute call returns no
  command identifier, and does not go on to poll. The code only logs the response at error
  level and goes on: below, the execute call answers with the empty object. The status
  request is then sent with \<open>commandId\<close> \<open>None\<close>; when the service answers it with a finished
  command, submit_command returns that command's result as if nothing had happened, and
  when the service refuses it, the exception raised is the one of the status request.
\<close>

theorem submit_command_without_id_polls:
  "submit_command (scripted ''export/'' True False (\<lambda>v. ''{}'') (\<lambda>s. Inr (PStr s)) (\<lambda>s. Inr (PStr s)))
       (PStr ''c1'') (PStr ''ctx'') ''print(1)''
       (start [Inr (PDict []),
               Inr (PDict [(''status'', PStr ''Finished''),
                           (''results'', PDict [(''resultType'', PStr ''text''),
                                                (''data'', PStr ''1'')])])] Map.empty)
     = Return (PDict [(''resultType'', PStr ''text''), (''data'', PStr ''1'')])
         \<lparr>remote = \<lparr>received =
             [(''POST'', ''/commands/execute'',
               PDict [(''language'', PStr ''python''), (''contextId'', PStr ''ctx''),
                      (''clusterId'', PStr ''c1''), (''command'', PStr ''print(1)'')]),
              (''GET'', ''/commands/status'',
               PDict [(''clusterId'', PStr ''c1''), (''contextId'', PStr ''ctx''),
                      (''commandId'', PNone)])],
             pending = []\<rparr>,
           fs = Map.empty, logs = [Error ''ERROR: {}''],
           commands = [(PStr ''c1'', PStr ''ctx'', ''print(1)'',
                        PDict [(''resultType'', PStr ''text''), (''data'', PStr ''1'')])],
           reads = []\<rparr>
   \<and> submit_command (scripted ''export/'' True False (\<lambda>v. ''{}'') (\<lambda>s. Inr (PStr s)) (\<lambda>s. Inr (PStr s)))
       (PStr ''c1'') (PStr ''ctx'') ''print(1)''
       (start [Inr (PDict []), Inl (RemoteError ''400 Bad Request'')] Map.empty)
     = Raise (RemoteError ''400 Bad Request'')
         \<lparr>remote = \<lparr>received =
             [(''POST'', ''/commands/execute'',
               PDict [(''language'', PStr ''python''), (''contextId'', PStr ''ctx''),
                      (''clusterId'', PStr ''c1''), (''command'', PStr ''print(1)'')]),
              (''GET'', ''/commands/status'',
               PDict [(''clusterId'', PStr ''c1''), (''contextId'', PStr ''ctx''),
                      (''commandId'', PNone)])],
             pending = []\<rparr>,
           fs = Map.empty, logs = [Error ''ERROR: {}''], commands = [], reads = []\<rparr>"
  by (simp add: submit_command_def run_defs poll_status.simps)

subsection \<open>The automated-cluster filter\<close>

lemma plus_digit_iff:
  "re_match (Plus Digit # rs) s \<longleftrightarrow> (\<exists>ds rest. s = ds @ rest \<and> digits ds \<and> re_match rs rest)"
proof (induction s)
  case Nil
  then show ?case by (simp add: digits_def)
next
  case (Cons x xs)
  show ?case
  proof
    assume "re_match (Plus Digit # rs) (x # xs)"
    then have d: "atom_ok Digit x" and alt: "re_match (Plus Digit # rs) xs \<or> re_match rs xs"
      by simp_all
    from alt show "\<exists>ds rest. x # xs = ds @ rest \<and> digits ds \<and> re_match rs rest"
    proof
      assume "re_match (Plus Digit # rs) xs"
      with Cons.IH obtain ds rest where "xs = ds @ rest" "digits ds" "re_match rs rest" by blast
      with d have "x # xs = (x # ds) @ rest \<and> digits (x # ds) \<and> re_match rs rest"
        by (simp add: digits_def)
      then show ?thesis by blast
    next
      assume "re_match rs xs"
      with d have "x # xs = [x] @ xs \<and> digits [x] \<and> re_match rs xs"
        by (simp add: digits_def)
      then show ?thesis by blast
    qed
  next
    assume "\<exists>ds rest. x # xs = ds @ rest \<and> digits ds \<and> re_match rs rest"
    then obtain ds rest where e: "x # xs = ds @ rest" and ds: "digits ds" and r: "re_match rs rest"
      by blast
    from ds obtain d ds' where dd: "ds = d # ds'" by (cases ds) (auto simp: digits_def)
    with e have x: "x = d" and xs: "xs = ds' @ rest" by simp_all
    from ds dd x have ok: "atom_ok Digit x" by (simp add: digits_def)
    show "re_match (Plus Digit # rs) (x # xs)"
    proof (cases "ds' = []")
      case True
      with xs r ok show ?thesis by simp
    next
      case False
      with ds dd have "digits ds'" by (simp add: digits_def)
      with xs r Cons.IH have "re_match (Plus Digit # rs) xs" by blast
      with ok show ?thesis by simp
    qed
  qed
qed

lemma literals_iff:
  "re_match (map (\<lambda>ch. One (Lit ch)) p @ rs) s \<longleftrightarrow> (\<exists>rest. s = p @ rest \<and> re_match rs rest)"
proof (induction p arbitrary: s)
  case Nil
  then show ?case by simp
next
  case (Cons a p)
  then show ?case by (cases s) auto
qed

text \<open>
  What the compiled pattern accepts: \<open>job-\<close>, digits, \<open>-run-\<close>, digits, and then either the end
  of the name or one newline that ends the name.
\<close>

theorem re_expr_accepts:
  "re_match re_expr s \<longleftrightarrow>
     (\<exists>job run. digits job \<and> digits run \<and>
        (s = ''job-'' @ job @ ''-run-'' @ run \<or> s = ''job-'' @ job @ ''-run-'' @ run @ [newline]))"
proof -
  let ?tail = "map (\<lambda>ch. One (Lit ch)) ''-run-'' @ [Plus Digit, Dollar]"
  have a: "re_match re_expr s \<longleftrightarrow> (\<exists>r1. s = ''job-'' @ r1 \<and> re_match (Plus Digit # ?tail) r1)"
    unfolding re_expr_def using literals_iff[of "''job-''" "Plus Digit # ?tail" s] by simp
  have b: "\<And>r1. re_match (Plus Digit # ?tail) r1 \<longleftrightarrow>
             (\<exists>job r2. r1 = job @ r2 \<and> digits job \<and> re_match ?tail r2)"
    by (rule plus_digit_iff)
  have c: "\<And>r2. re_match ?tail r2 \<longleftrightarrow> (\<exists>r3. r2 = ''-run-'' @ r3 \<and> re_match [Plus Digit, Dollar] r3)"
    by (rule literals_iff)
  have d: "\<And>r3. re_match [Plus Digit, Dollar] r3 \<longleftrightarrow>
             (\<exists>run r4. r3 = run @ r4 \<and> digits run \<and> (r4 = [] \<or> r4 = [newline]))"
    using plus_digit_iff[of "[Dollar]"] by simp
  show ?thesis
    unfolding a b c d
  proof
    assume "\<exists>r1. s = ''job-'' @ r1 \<and> (\<exists>job r2. r1 = job @ r2 \<and> digits job \<and>
              (\<exists>r3. r2 = ''-run-'' @ r3 \<and>
                (\<exists>run r4. r3 = run @ r4 \<and> digits run \<and> (r4 = [] \<or> r4 = [newline]))))"
    then show "\<exists>job run. digits job \<and> digits run \<and>
        (s = ''job-'' @ job @ ''-run-'' @ run \<or> s = ''job-'' @ job @ ''-run-'' @ run @ [newline])"
      by auto
  next
    assume "\<exists>job run. digits job \<and> digits run \<and>
        (s = ''job-'' @ job @ ''-run-'' @ run \<or> s = ''job-'' @ job @ ''-run-'' @ run @ [newline])"
    then obtain job run where j: "digits job" and r: "digits run"
      and s: "s = ''job-'' @ job @ ''-run-'' @ run @ [] \<or> s = ''job-'' @ job @ ''-run-'' @ run @ [newline]"
      by auto
    then show "\<exists>r1. s = ''job-'' @ r1 \<and> (\<exists>job r2. r1 = job @ r2 \<and> digits job \<and>
              (\<exists>r3. r2 = ''-run-'' @ r3 \<and>
                (\<exists>run r4. r3 = run @ r4 \<and> digits run \<and> (r4 = [] \<or> r4 = [newline]))))"
      by blast
  qed
qed

text \<open>The three names of the specification's example.\<close>

theorem automated_examples:
  "automated ''job-482-run-17'' \<and> automated ''mlflow-model-prod'' \<and> \<not> automated ''job-482-run-17x''"
  by (simp add: automated_def re_expr_def ml_model_pattern_def)

lemma remove_automated_loop_partition:
  assumes "\<forall>x\<in>set cl. named_cluster x"
  shows "remove_automated_loop c fp cl clean w =
     Return (clean @ filter (\<lambda>x. \<not> skipped_cluster x) cl)
       (if filter skipped_cluster cl = [] then w
        else w\<lparr>fs := (fs w)(fp \<mapsto> File ((case fs w fp of Some (File t) \<Rightarrow> t | _ \<Rightarrow> []) @
               concat (map (\<lambda>x. json_dumps c x @ [newline]) (filter skipped_cluster cl))))\<rparr>)"
  using assms
proof (induction cl arbitrary: clean w)
  case Nil
  then show ?case by simp
next
  case (Cons x cl)
  from Cons.prems obtain n where n: "subscript x ''cluster_name'' = Inr (PStr n)"
    by (auto simp: named_cluster_def split: sum.splits py.splits)
  from Cons.prems have rest: "\<forall>x\<in>set cl. named_cluster x" by simp
  from n have sx: "skipped_cluster x = automated n" by (simp add: skipped_cluster_def)
  show ?case
  proof (cases "automated n")
    case True
    then show ?thesis
      using n sx Cons.IH[OF rest] by (simp add: bnd_def file_write_def)
  next
    case False
    then show ?thesis
      using n sx Cons.IH[OF rest] by (simp add: bnd_def)
  qed
qed

text \<open>
  When every cluster carries a string as its name, remove_automated_clusters returns the
  clusters the test does not skip, in their order, and leaves in the log file one line for
  each cluster it skips, in their order.
\<close>

theorem remove_automated_clusters_partition:
  assumes "\<forall>x\<in>set cluster_list. named_cluster x"
    and "\<not> isdir (export_dir c @ log_file) w"
  shows "remove_automated_clusters c cluster_list log_file w =
     Return (filter (\<lambda>x. \<not> skipped_cluster x) cluster_list)
       (w\<lparr>fs := (fs w)(export_dir c @ log_file \<mapsto>
            File (concat (map (\<lambda>x. json_dumps c x @ [newline]) (filter skipped_cluster cluster_list))))\<rparr>)"
proof -
  from assms(2) have o: "open_write (export_dir c @ log_file) w =
      Return () (w\<lparr>fs := (fs w)(export_dir c @ log_file \<mapsto> File [])\<rparr>)"
    by (auto simp: open_write_def isdir_def split: option.splits node.splits)
  show ?thesis
    unfolding remove_automated_clusters_def
    by (simp add: bnd_def o remove_automated_loop_partition[OF assms(1)])
qed

theorem remove_automated_clusters_partition_witness:
  "remove_automated_clusters (scripted ''export/'' True False (\<lambda>v. ''{}'') (\<lambda>s. Inr (PStr s)) (\<lambda>s. Inr (PStr s)))
       [PDict [(''cluster_name'', PStr ''job-482-run-17'')],
        PDict [(''cluster_name'', PStr ''etl-nightly'')],
        PDict [(''cluster_name'', PStr ''mlflow-model-prod'')],
        PDict [(''cluster_name'', PStr ''job-482-run-17x'')]]
       ''skipped_clusters.log'' (start [] Map.empty)
     = Return [PDict [(''cluster_name'', PStr ''etl-nightly'')],
               PDict [(''cluster_name'', PStr ''job-482-run-17x'')]]
         ((start [] Map.empty)\<lparr>fs := [''export/skipped_clusters.log'' \<mapsto>
            File (''{}'' @ [newline] @ ''{}'' @ [newline])]\<rparr>)"
  using remove_automated_clusters_partition
          [of "[PDict [(''cluster_name'', PStr ''job-482-run-17'')],
                PDict [(''cluster_name'', PStr ''etl-nightly'')],
                PDict [(''cluster_name'', PStr ''mlflow-model-prod'')],
                PDict [(''cluster_name'', PStr ''job-482-run-17x'')]]"
              "scripted ''export/'' True False (\<lambda>v. ''{}'') (\<lambda>s. Inr (PStr s)) (\<lambda>s. Inr (PStr s))"
              "''skipped_clusters.log''" "start [] Map.empty"]
  by (simp add: named_cluster_def skipped_cluster_def automated_def re_expr_def ml_model_pattern_def
        isdir_def start_def)

text \<open>
  C7. The claim: a cluster is excluded exactly when its name is \<open>job-<digits>-run-<digits>\<close>
  from its first to its last character, or starts with \<open>mlflow-model-\<close>. The three examples of
  the claim hold (\<open>automated_examples\<close>), but \<open>$\<close> in the pattern also accepts a newline
  after the run identifier: the cluster named \<open>job-482-run-17\<close> followed by a newline is
  taken out of the returned list and written to the log of skipped clusters, although its
  name does not end with the digits.
\<close>

theorem job_pattern_accepts_trailing_newline:
  "remove_automated_clusters (scripted ''export/'' True False dumps loads leval)
       [PDict [(''cluster_name'', PStr (''job-482-run-17'' @ [newline]))]]
       ''skipped_clusters.log'' (start [] Map.empty)
     = Return []
         ((start [] Map.empty)\<lparr>fs := [''export/skipped_clusters.log'' \<mapsto>
            File (dumps (PDict [(''cluster_name'', PStr (''job-482-run-17'' @ [newline]))])
                  @ [newline])]\<rparr>)"
  by (simp add: remove_automated_clusters_def open_write_def file_write_def bnd_def start_def
        automated_def re_expr_def)

subsection \<open>The retry loop skips the table after a success\<close>

text \<open>
  C2. The claim: for each role, every table still in the failing list is tried again with
  that role. The loop over \<open>err_log_list\<close> removes from the list it is iterating, so after
  a success the element that moves into the freed position is never visited in that round.
  Below the failure log holds \<open>sales.orders\<close> and \<open>sales.customers\<close>, one instance
  profile is registered, and the workspace would answer every statement with a text result.
  Only \<open>sales.orders\<close> is tried: the answers prepared for the second table are still pending
  at the end, and \<open>sales.customers\<close> stays in the rewritten failure log without having been
  tried with the only role.
\<close>

theorem retry_skips_table_after_success:
  "(case retry_failed_metastore_export (demo True False) (PStr ''c1'')
           ''export/failed_metastore.log'' ''metastore/''
           (start (one_profile # role_switch
                     @ finished ''text'' ''CREATE TABLE sales.orders (id INT)''
                     @ finished ''text'' ''CREATE TABLE sales.customers (id INT)'')
              (cluster_template(''export/failed_metastore.log'' \<mapsto> File (orders_line @ customers_line)))) of
      Return _ w \<Rightarrow>
        map (\<lambda>(cid, ec_id, cmd, results). cmd) (commands w) = [ddl_stmt ''sales'' ''orders'']
        \<and> pending (remote w) = finished ''text'' ''CREATE TABLE sales.customers (id INT)''
        \<and> fs w ''export/failed_metastore.log'' = Some (File customers_line)
        \<and> fs w ''export/metastore/sales/orders'' = Some (File ''CREATE TABLE sales.orders (id INT)'')
        \<and> fs w ''export/metastore/sales/customers'' = None
    | _ \<Rightarrow> False)"
  by (simp add: retry_failed_metastore_export_def retry_pass_def retry_tables.simps
        check_if_instance_profiles_exists_def get_num_of_lines_def split_table_def index_def
        retry_marker_def file_defs cluster_defs run_defs demo_defs)

subsection \<open>The import creates a database for an entry that is not a directory\<close>

text \<open>
  C6. The claim: import_hive_metastore issues \<open>CREATE DATABASE IF NOT EXISTS\<close> only for the
  entries of the metastore directory that are directories. The call of create_database_db
  stands before the test of \<open>os.path.isdir\<close>, so it is made for every entry. Below the
  metastore directory holds the database directory \<open>sales\<close> with one table and the plain
  file \<open>README.md\<close>: three statements run, the last of them creates a database named
  \<open>README.md\<close>, and only then is the entry reported as an error.
\<close>

theorem import_creates_database_for_file:
  "(case import_hive_metastore (demo True False) ''metastore''
           (start ([Inr (PDict [(''clusters'',
                      PList [PDict [(''state'', PStr ''RUNNING''),
                                    (''cluster_name'', PStr ''Workspace_Migration_Work_Leave_Me_Alone''),
                                    (''cluster_id'', PStr ''c1'')]])]),
                    Inr (PDict [(''id'', PStr ''ctx'')])]
                   @ finished ''text'' [] @ finished ''text'' [] @ finished ''text'' [])
              (cluster_template
                 (''export/metastore'' \<mapsto> Dir [''sales'', ''README.md''],
                  ''export/metastore/sales'' \<mapsto> Dir [''orders''],
                  ''export/metastore/sales/orders'' \<mapsto> File ''CREATE TABLE sales.orders (id INT)'',
                  ''export/metastore/README.md'' \<mapsto> File ''exported on Monday''))) of
      Return _ w \<Rightarrow>
        map (\<lambda>(cid, ec_id, cmd, results). cmd) (commands w) =
          [create_db_statement ''sales'',
           get_spark_ddl ''CREATE TABLE sales.orders (id INT)'',
           create_db_statement ''README.md'']
        \<and> last (logs w) = Error ''Error: Only databases should exist at this level: README.md''
    | _ \<Rightarrow> False)"
  by (simp add: import_hive_metastore_def create_database_db_def apply_table_ddl_def
        running_clusters.simps cluster_named.simps
        file_defs cluster_defs run_defs demo_defs)

subsection \<open>Pagination\<close>

text \<open>Both functions run their loop over \<open>range(0, num_of_buckets)\<close> for the count they read.\<close>

lemma log_all_databases_buckets:
  assumes "submit_command c cid ec_id all_dbs_cmd w = Return results w1"
    and "subscript results ''resultType'' = Inr (PStr ''text'')"
    and "subscript results ''data'' = Inr data"
    and "eval_literal c data = Inr v"
    and "as_int v = Inr n"
  shows "log_all_databases c cid ec_id ms_dir w =
           database_buckets c cid ec_id ms_dir (py_range (num_of_buckets n)) [] w1"
  using assms by (simp add: log_all_databases_def bnd_def)

lemma log_all_tables_buckets:
  assumes "submit_command c cid ec_id (all_tables_cmd (py_str c db_name)) w = Return results0 w0"
    and "submit_command c cid ec_id ''print(len(all_tables))'' w0 = Return results w1"
    and "subscript results ''data'' = Inr data"
    and "eval_literal c data = Inr v"
    and "as_int v = Inr n"
    and "open_append err_log_path w1 = Return () w2"
  shows "log_all_tables c db_name cid ec_id ms_dir err_log_path w =
           bnd (table_buckets c db_name cid ec_id ms_dir err_log_path (py_range (num_of_buckets n)))
             (\<lambda>_. Return True) w2"
  using assms by (simp add: log_all_tables_def bnd_def)

lemma ceil100: "\<lceil>real_of_int n / 100\<rceil> = (if 100 dvd n then n div 100 else n div 100 + 1)"
proof -
  define q where "q = n div 100"
  define r where "r = n mod 100"
  have n: "n = 100 * q + r" and r: "0 \<le> r" "r < 100"
    by (simp_all add: q_def r_def)
  have x: "real_of_int n / 100 = real_of_int q + real_of_int r / 100"
    by (simp add: n)
  show ?thesis
  proof (cases "100 dvd n")
    case True
    then have "r = 0" by (simp add: r_def)
    with x have "real_of_int n / 100 = real_of_int q" by simp
    then have "\<lceil>real_of_int n / 100\<rceil> = q" by simp
    with True show ?thesis by (simp add: q_def)
  next
    case False
    then have "r \<noteq> 0" by (simp add: r_def dvd_eq_mod_eq_0)
    with r have "0 < real_of_int r" "real_of_int r < 100" by simp_all
    with x have "real_of_int (q + 1) - 1 < real_of_int n / 100"
      and "real_of_int n / 100 \<le> real_of_int (q + 1)" by simp_all
    then have "\<lceil>real_of_int n / 100\<rceil> = q + 1" by (rule ceiling_unique)
    with False show ?thesis by (simp add: q_def)
  qed
qed

lemma set_py_range: "set (py_range k) = {0..<k}"
proof -
  have "set (py_range k) = int ` {0..<nat k}" by (simp add: py_range_def)
  also have "\<dots> = {0..<k}"
  proof (intro set_eqI iffI)
    fix x assume "x \<in> int ` {0..<nat k}" then show "x \<in> {0..<k}" by auto
  next
    fix x assume "x \<in> {0..<k}"
    then have "x = int (nat x)" "nat x \<in> {0..<nat k}" by auto
    then show "x \<in> int ` {0..<nat k}" by blast
  qed
  finally show ?thesis .
qed

lemma length_pagination: "0 \<le> n \<Longrightarrow> length (pagination n) = nat (n div 100) + 1"
  by (simp add: pagination_def py_range_def num_of_buckets_def batch_size_def nat_add_distrib
        pos_imp_zdiv_nonneg_iff)

lemma nth_pagination:
  "i < length (pagination n) \<Longrightarrow> pagination n ! i = (100 * int i, 100 * (int i + 1))"
  by (simp add: pagination_def py_range_def slice_bounds_def batch_size_def)

lemma covered_pagination: "covered (pagination n) = {0..<100 * (n div 100 + 1)}"
proof (intro set_eqI iffI)
  fix x assume "x \<in> covered (pagination n)"
  then obtain m where "0 \<le> m" "m < n div 100 + 1" "100 * m \<le> x" "x < 100 * (m + 1)"
    by (auto simp: covered_def pagination_def set_py_range slice_bounds_def batch_size_def
          num_of_buckets_def)
  then show "x \<in> {0..<100 * (n div 100 + 1)}" by auto
next
  fix x assume x: "x \<in> {0..<100 * (n div 100 + 1)}"
  let ?m = "x div 100"
  from x have "0 \<le> ?m" "?m < n div 100 + 1" "100 * ?m \<le> x" "x < 100 * (?m + 1)"
    by auto
  then have "?m \<in> set (py_range (num_of_buckets n))"
    and "x \<in> {fst (slice_bounds ?m)..<snd (slice_bounds ?m)}"
    by (auto simp: set_py_range num_of_buckets_def batch_size_def slice_bounds_def)
  then show "x \<in> covered (pagination n)"
    unfolding covered_def pagination_def by auto
qed

lemma count_upto_below: "{0..<n} \<subseteq> {0..<100 * (n div 100 + 1)}" for n :: int
proof -
  define q where "q = n div 100"
  define r where "r = n mod 100"
  have "n = 100 * q + r" and "r < 100" by (simp_all add: q_def r_def)
  then have "n < 100 * (q + 1)" by simp
  then show ?thesis by (auto simp: q_def)
qed

text \<open>
  C1. The claim: for a count \<open>N\<close> and the batch size 100 the pagination consists of exactly
  \<open>ceil(N/100)\<close> ranges \<open>[100*i, 100*(i+1))\<close> that do not overlap and cover \<open>[0, N)\<close> without a
  gap. The code takes \<open>N // 100 + 1\<close> ranges. They have the stated form, do not overlap and
  cover \<open>[0, 100 * (N // 100 + 1))\<close>, which contains \<open>[0, N)\<close>; their number is \<open>ceil(N/100)\<close>
  when 100 does not divide \<open>N\<close> and one more when it does (the last range then lies beyond
  the list and its slice is empty).
\<close>

theorem pagination_ranges:
  assumes "0 \<le> n"
  shows "length (pagination n) = nat (n div batch_size) + 1
    \<and> (\<forall>i<length (pagination n).
          pagination n ! i = (batch_size * int i, batch_size * (int i + 1)))
    \<and> (\<forall>i j. i < j \<and> j < length (pagination n)
          \<longrightarrow> snd (pagination n ! i) \<le> fst (pagination n ! j))
    \<and> covered (pagination n) = {0..<batch_size * (n div batch_size + 1)}
    \<and> {0..<n} \<subseteq> covered (pagination n)
    \<and> int (length (pagination n)) =
          (if batch_size dvd n then \<lceil>real_of_int n / real_of_int batch_size\<rceil> + 1
           else \<lceil>real_of_int n / real_of_int batch_size\<rceil>)"
proof (intro conjI)
  show len: "length (pagination n) = nat (n div batch_size) + 1"
    using assms by (simp add: length_pagination batch_size_def)
  show "\<forall>i<length (pagination n).
          pagination n ! i = (batch_size * int i, batch_size * (int i + 1))"
    by (simp add: nth_pagination batch_size_def)
  show "\<forall>i j. i < j \<and> j < length (pagination n)
          \<longrightarrow> snd (pagination n ! i) \<le> fst (pagination n ! j)"
    by (auto simp: nth_pagination)
  show "covered (pagination n) = {0..<batch_size * (n div batch_size + 1)}"
    by (simp add: covered_pagination batch_size_def)
  show "{0..<n} \<subseteq> covered (pagination n)"
    unfolding covered_pagination by (rule count_upto_below)
  have "0 \<le> n div 100" using assms by (simp add: pos_imp_zdiv_nonneg_iff)
  then have "int (length (pagination n)) = n div 100 + 1"
    using assms by (simp add: length_pagination)
  then show "int (length (pagination n)) =
          (if batch_size dvd n then \<lceil>real_of_int n / real_of_int batch_size\<rceil> + 1
           else \<lceil>real_of_int n / real_of_int batch_size\<rceil>)"
    by (simp add: batch_size_def ceil100)
qed

theorem pagination_ranges_witness:
  "pagination 250 = [(0, 100), (100, 200), (200, 300)]
   \<and> covered (pagination 250) = {0..<300}
   \<and> int (length (pagination 250)) = \<lceil>real_of_int 250 / real_of_int batch_size\<rceil>"
  using pagination_ranges [of 250]
  by (simp add: pagination_def py_range_def num_of_buckets_def batch_size_def slice_bounds_def
        eval_nat_numeral)

text \<open>For 100 elements two ranges are asked for, not one.\<close>

theorem pagination_count_counterexample:
  "length (pagination 100) = 2
   \<and> pagination 100 = [(0, 100), (100, 200)]
   \<and> \<lceil>real_of_int 100 / real_of_int batch_size\<rceil> = 1"
  by (simp add: pagination_def py_range_def num_of_buckets_def batch_size_def slice_bounds_def
        eval_nat_numeral)

subsection \<open>Results that are not text\<close>




text \<open>The file of a table never is the failure log of the export.\<close>

lemma ddl_path_not_failure_log:
  "e @ ''failed_metastore.log'' \<noteq> e @ ms_dir @ db @ ''/'' @ tbl"
proof
  assume "e @ ''failed_metastore.log'' = e @ ms_dir @ db @ ''/'' @ tbl"
  then have "''failed_metastore.log'' = ms_dir @ db @ ''/'' @ tbl" by simp
  then have "set ''failed_metastore.log'' = set (ms_dir @ db @ ''/'' @ tbl)" by (rule arg_cong)
  then have "CHR ''/'' \<in> set ''failed_metastore.log''" by simp
  then show False by simp
qed






subsection \<open>The retry outside AWS\<close>

text \<open>
  C10. The claim: when \<open>is_aws()\<close> is false the call fails at the read of the unassigned
  \<open>do_instance_profile_exist\<close>, before reading the failure log or attempting any retry. The
  call does fail there, without any remote call, log line or file written; but
  get_num_of_lines stands before that read and has opened the failure log and counted its
  lines by then when the file exists. When the path is a directory, it is the error of that
  open that the call fails with.
\<close>

theorem retry_outside_aws_fails:
  assumes "\<not> is_aws c"
  shows "retry_failed_metastore_export c cid failed_metastore_log_path ms_dir w =
     (case fs w failed_metastore_log_path of
        None \<Rightarrow> Raise (UnboundLocalError ''do_instance_profile_exist'') w
      | Some (File text) \<Rightarrow>
          Raise (UnboundLocalError ''do_instance_profile_exist'')
            (w\<lparr>reads := reads w @ [failed_metastore_log_path]\<rparr>)
      | Some (Dir entries) \<Rightarrow> Raise (IsADirectoryError failed_metastore_log_path) w)"
  using assms
  by (simp add: retry_failed_metastore_export_def get_num_of_lines_def path_exists_def
        open_read_def bnd_def split: option.splits node.splits)

theorem retry_outside_aws_fails_witness:
  "retry_failed_metastore_export (demo False False) (PStr ''c1'') ''export/failed_metastore.log''
       ''metastore/'' (start [] Map.empty)
     = Raise (UnboundLocalError ''do_instance_profile_exist'') (start [] Map.empty)"
proof -
  have "\<not> is_aws (demo False False)" by simp
  from retry_outside_aws_fails[OF this, of "PStr ''c1''" "''export/failed_metastore.log''"
         "''metastore/''" "start [] Map.empty"]
  show ?thesis by (simp add: start_def)
qed

text \<open>With a failure log of one record, the log has been opened for reading when the call fails.\<close>

theorem retry_outside_aws_reads_failure_log:
  "retry_failed_metastore_export (demo False False) (PStr ''c1'') ''export/failed_metastore.log''
       ''metastore/'' (start [] [''export/failed_metastore.log'' \<mapsto> File orders_line])
     = Raise (UnboundLocalError ''do_instance_profile_exist'')
         ((start [] [''export/failed_metastore.log'' \<mapsto> File orders_line])
            \<lparr>reads := [''export/failed_metastore.log'']\<rparr>)"
  by (simp add: retry_failed_metastore_export_def get_num_of_lines_def path_exists_def
        open_read_def bnd_def start_def)

subsection \<open>What a call leaves unchanged\<close>

lemma extracted_Nil [simp]: "extracted [] = {}"
  by (simp add: extracted_def)

lemma extracted_append [simp]: "extracted (xs @ ys) = extracted xs \<union> extracted ys"
  by (auto simp: extracted_def)

lemma extracted_single [simp]:
  "extracted [(cid, ec_id, cmd, results)] = (if text_result results then {cmd} else {})"
  by (auto simp: extracted_def)













lemma lift_Return_iff [simp]: "lift x w = Return a w' \<longleftrightarrow> x = Inr a \<and> w' = w"
  by (cases x) auto

lemma run_Return_iff [simp]: "run r = Return a w' \<longleftrightarrow> r = Some (Return a w')"
  by (cases r) auto









lemma log_info_Return_iff [simp]:
  "log_info msg w = Return a w' \<longleftrightarrow> w' = w\<lparr>logs := logs w @ [Info msg]\<rparr>"
  by (auto simp: log_info_def)

lemma file_write_Return_iff [simp]:
  "file_write p s w = Return a w' \<longleftrightarrow>
     w' = w\<lparr>fs := (fs w)(p \<mapsto> File ((case fs w p of Some (File t) \<Rightarrow> t | _ \<Rightarrow> []) @ s))\<rparr>"
  by (auto simp: file_write_def)

lemma open_write_Return_iff [simp]:
  "open_write p w = Return a w' \<longleftrightarrow> \<not> isdir p w \<and> w' = w\<lparr>fs := (fs w)(p \<mapsto> File [])\<rparr>"
  by (auto simp: open_write_def isdir_def split: option.splits node.splits)

subsection \<open>The failure log after a retry\<close>




























subsection \<open>When the retry pass runs\<close>
































end
